theory Spec2Isabelle
  imports Main "HOL-Library.AList"
begin

section \<open>JavaScript values\<close>

text \<open>
  The module works on the parsed JSON answers of the Notion API, which it reads by
  dynamic property access. A value is therefore a JSON value, or \<open>undefined\<close>.
  \<^item> A string is the list of its UTF-16 code units; the model covers the code units
    below 256 (Basic Latin and Latin-1 Supplement), one \<open>char\<close> each.
  \<^item> A number is an integer (its text is the decimal numeral, as JavaScript prints
    integers below \<open>10^21\<close>).
  \<^item> An object is the list of its own properties, with distinct keys, in the order in
    which they were written (JavaScript enumerates keys that are array indices first; no
    result below depends on the order of the keys of an object). Properties
    inherited from the built-in prototypes are not modelled: the module reads the fixed
    names \<open>type\<close>, \<open>select\<close>, \<open>text\<close>, \<open>content\<close>, \<open>file\<close>, \<open>url\<close>, \<open>name\<close>, \<open>id\<close>,
    \<open>results\<close>, \<open>properties\<close>, \<open>data_sources\<close>, which no prototype of a JSON value defines, and a
    computed name that hits an inherited method gives a function on which each of these
    reads is \<open>undefined\<close>, as it is on an absent property.
\<close>

datatype val =
    Undefined
  | Null
  | JBool bool
  | JNum int
  | JStr string
  | JArr "val list"
  | JObj "(string \<times> val) list"

datatype error =
    TypeError
  | Error string
  | Rejected string

text \<open>Sequencing of computations that may throw.\<close>

definition bnd :: "error + 'a \<Rightarrow> ('a \<Rightarrow> error + 'b) \<Rightarrow> error + 'b" where
  "bnd m f = (case m of Inl e \<Rightarrow> Inl e | Inr x \<Rightarrow> f x)"

fun mapM :: "('a \<Rightarrow> error + 'b) \<Rightarrow> 'a list \<Rightarrow> error + 'b list" where
  "mapM f [] = Inr []"
| "mapM f (x # xs) = bnd (f x) (\<lambda>y. bnd (mapM f xs) (\<lambda>ys. Inr (y # ys)))"

fun filterM :: "('a \<Rightarrow> error + bool) \<Rightarrow> 'a list \<Rightarrow> error + 'a list" where
  "filterM p [] = Inr []"
| "filterM p (x # xs) =
     bnd (p x) (\<lambda>b. bnd (filterM p xs) (\<lambda>ys. Inr (if b then x # ys else ys)))"

text \<open>Truthiness (\<open>ToBoolean\<close>).\<close>

fun truthy :: "val \<Rightarrow> bool" where
  "truthy Undefined = False"
| "truthy Null = False"
| "truthy (JBool b) = b"
| "truthy (JNum n) = (n \<noteq> 0)"
| "truthy (JStr s) = (s \<noteq> [])"
| "truthy (JArr xs) = True"
| "truthy (JObj kvs) = True"

fun nullish :: "val \<Rightarrow> bool" where
  "nullish Undefined = True"
| "nullish Null = True"
| "nullish v = False"

text \<open>\<open>a || ''\<close>\<close>

definition or_empty :: "val \<Rightarrow> val" where
  "or_empty v = (if truthy v then v else JStr [])"

subsection \<open>Numbers and strings\<close>

fun show_nat :: "nat \<Rightarrow> string" where
  "show_nat n =
     (if n < 10 then [''0123456789'' ! n]
      else show_nat (n div 10) @ [''0123456789'' ! (n mod 10)])"

declare show_nat.simps [simp del]

definition show_int :: "int \<Rightarrow> string" where
  "show_int i = (if i < 0 then CHR ''-'' # show_nat (nat (- i)) else show_nat (nat i))"

fun join :: "string \<Rightarrow> string list \<Rightarrow> string" where
  "join sep [] = []"
| "join sep [s] = s"
| "join sep (s # t # ss) = s @ sep @ join sep (t # ss)"

text \<open>
  \<open>ToString\<close>, as template literals, computed property names and \<open>Array.prototype.join\<close>
  apply it. An array is joined with commas, \<open>null\<close> and \<open>undefined\<close> elements giving the
  empty string. An object goes through \<open>Object.prototype.toString\<close>, unless it has an own
  property \<open>toString\<close>: a JSON value is never callable, so the conversion finds no method
  that returns a primitive and throws a \<open>TypeError\<close>.
\<close>

fun ToString :: "val \<Rightarrow> error + string"
  and ToString_elems :: "val list \<Rightarrow> error + string list" where
  "ToString Undefined = Inr ''undefined''"
| "ToString Null = Inr ''null''"
| "ToString (JBool b) = Inr (if b then ''true'' else ''false'')"
| "ToString (JNum n) = Inr (show_int n)"
| "ToString (JStr s) = Inr s"
| "ToString (JArr xs) = bnd (ToString_elems xs) (\<lambda>ss. Inr (join '','' ss))"
| "ToString (JObj kvs) =
     (if ''toString'' \<in> set (map fst kvs) then Inl TypeError else Inr ''[object Object]'')"
| "ToString_elems [] = Inr []"
| "ToString_elems (x # xs) =
     bnd (if nullish x then Inr [] else ToString x)
       (\<lambda>s. bnd (ToString_elems xs) (\<lambda>ss. Inr (s # ss)))"

subsection \<open>Property access\<close>

text \<open>
  The own properties of a value, in the order \<open>Object.entries\<close> and object spread
  enumerate them: the elements of an array and the characters of a string under their
  indices, nothing for the other primitives.
\<close>

fun entries :: "val \<Rightarrow> (string \<times> val) list" where
  "entries (JObj kvs) = kvs"
| "entries (JArr xs) = zip (map show_nat [0..<length xs]) xs"
| "entries (JStr s) = zip (map show_nat [0..<length s]) (map (\<lambda>c. JStr [c]) s)"
| "entries v = []"

text \<open>\<open>v?.k\<close>: the property \<open>k\<close> of \<open>v\<close>, \<open>undefined\<close> when \<open>v\<close> is \<open>null\<close> or \<open>undefined\<close>.\<close>

fun opt_get :: "val \<Rightarrow> string \<Rightarrow> val" where
  "opt_get (JObj kvs) k = (case map_of kvs k of Some v \<Rightarrow> v | None \<Rightarrow> Undefined)"
| "opt_get (JArr xs) k =
     (if k = ''length'' then JNum (int (length xs))
      else case map_of (entries (JArr xs)) k of Some v \<Rightarrow> v | None \<Rightarrow> Undefined)"
| "opt_get (JStr s) k =
     (if k = ''length'' then JNum (int (length s))
      else case map_of (entries (JStr s)) k of Some v \<Rightarrow> v | None \<Rightarrow> Undefined)"
| "opt_get v k = Undefined"

text \<open>\<open>v.k\<close> and \<open>v[k]\<close>: reading a property of \<open>null\<close> or \<open>undefined\<close> throws.\<close>

definition get :: "val \<Rightarrow> string \<Rightarrow> error + val" where
  "get v k = (if nullish v then Inl TypeError else Inr (opt_get v k))"

definition Object_entries :: "val \<Rightarrow> error + (string \<times> val) list" where
  "Object_entries v = (if nullish v then Inl TypeError else Inr (entries v))"

text \<open>\<open>{...acc, ...v}\<close>: the properties of \<open>v\<close> are written over those of \<open>acc\<close>.\<close>

definition spread :: "(string \<times> val) list \<Rightarrow> val \<Rightarrow> (string \<times> val) list" where
  "spread acc v = fold (\<lambda>(k, x) kvs. AList.update k x kvs) (entries v) acc"


subsection \<open>Comparison with zero\<close>

text \<open>
  What the module takes from outside its own text: the answers of the three requests it
  sends through the cache (a rejected request is an error), and how the JavaScript engine
  reads a string as a number, which \<open>s > 0\<close> needs for a string \<open>s\<close>.
\<close>

record world =
  database :: "error + val"
  query :: "string \<Rightarrow> error + val"
  children :: "string \<Rightarrow> error + val"
  string_positive :: "string \<Rightarrow> bool"

text \<open>
  \<open>v > 0\<close>. An array or an object is first converted to a primitive, which is its string
  (\<open>valueOf\<close> returns the object itself); \<open>[object Object]\<close> reads as \<open>NaN\<close>, as does
  \<open>undefined\<close>, and \<open>null\<close> reads as 0.
\<close>

fun gt_zero :: "world \<Rightarrow> val \<Rightarrow> error + bool" where
  "gt_zero w Undefined = Inr False"
| "gt_zero w Null = Inr False"
| "gt_zero w (JBool b) = Inr b"
| "gt_zero w (JNum n) = Inr (0 < n)"
| "gt_zero w (JStr s) = Inr (string_positive w s)"
| "gt_zero w (JArr xs) = bnd (ToString (JArr xs)) (\<lambda>s. Inr (string_positive w s))"
| "gt_zero w (JObj kvs) = bnd (ToString (JObj kvs)) (\<lambda>s. Inr False)"

section \<open>slugify\<close>

text \<open>
  \<open>String.prototype.toLowerCase\<close> on the code units below 256: the capital letters
  \<open>A\<close> to \<open>Z\<close>, and \<open>U+00C0\<close> to \<open>U+00DE\<close> without the multiplication sign \<open>U+00D7\<close>.
\<close>

definition toLowerCase :: "string \<Rightarrow> string" where
  "toLowerCase s =
     map (\<lambda>c. let n = (of_char c :: int) in
            if (65 \<le> n \<and> n \<le> 90) \<or> (192 \<le> n \<and> n \<le> 222 \<and> n \<noteq> 215)
            then char_of (n + 32) else c) s"

text \<open>The white space of \<open>trim\<close> and of the regular expression class \<open>\s\<close>.\<close>

definition is_space :: "int \<Rightarrow> bool" where
  "is_space u \<longleftrightarrow>
     u \<in> set [9, 10, 11, 12, 13, 32, 160, 0x1680, 0x2028, 0x2029, 0x202F, 0x205F,
       0x3000, 0xFEFF] \<or> (0x2000 \<le> u \<and> u \<le> 0x200A)"

definition trim :: "string \<Rightarrow> string" where
  "trim s =
     rev (dropWhile (\<lambda>c. is_space (of_char c)) (rev (dropWhile (\<lambda>c. is_space (of_char c)) s)))"

text \<open>
  The canonical decompositions of the code units below 256: code unit, base letter,
  combining mark. The small letters follow the capitals at distance 32.
\<close>

definition capital_decompositions :: "(int \<times> int \<times> int) list" where
  "capital_decompositions =
     [(0xC0, 0x41, 0x300), (0xC1, 0x41, 0x301), (0xC2, 0x41, 0x302), (0xC3, 0x41, 0x303),
      (0xC4, 0x41, 0x308), (0xC5, 0x41, 0x30A), (0xC7, 0x43, 0x327), (0xC8, 0x45, 0x300),
      (0xC9, 0x45, 0x301), (0xCA, 0x45, 0x302), (0xCB, 0x45, 0x308), (0xCC, 0x49, 0x300),
      (0xCD, 0x49, 0x301), (0xCE, 0x49, 0x302), (0xCF, 0x49, 0x308), (0xD1, 0x4E, 0x303),
      (0xD2, 0x4F, 0x300), (0xD3, 0x4F, 0x301), (0xD4, 0x4F, 0x302), (0xD5, 0x4F, 0x303),
      (0xD6, 0x4F, 0x308), (0xD9, 0x55, 0x300), (0xDA, 0x55, 0x301), (0xDB, 0x55, 0x302),
      (0xDC, 0x55, 0x308), (0xDD, 0x59, 0x301)]"

definition decompositions :: "(int \<times> int \<times> int) list" where
  "decompositions =
     capital_decompositions
     @ map (\<lambda>(c, b, m). (c + 32, b + 32, m)) capital_decompositions
     @ [(0xFF, 0x79, 0x308)]"

text \<open>\<open>normalize('NFD')\<close>; the result is a list of code units, the marks lie above 256.\<close>

definition normalize_NFD :: "string \<Rightarrow> int list" where
  "normalize_NFD s =
     concat (map (\<lambda>c. case map_of decompositions (of_char c) of
                         Some (b, m) \<Rightarrow> [b, m]
                       | None \<Rightarrow> [of_char c]) s)"

text \<open>\<open>replace(/[C]+/g, r)\<close> for a character class \<open>C\<close>: each maximal run becomes \<open>r\<close>.\<close>

function replace_runs :: "(int \<Rightarrow> bool) \<Rightarrow> int list \<Rightarrow> int list \<Rightarrow> int list" where
  "replace_runs C r [] = []"
| "replace_runs C r (u # us) =
     (if C u then r @ replace_runs C r (dropWhile C us) else u # replace_runs C r us)"
  by pat_completeness auto
termination
  by (relation "measure (\<lambda>(C, r, us). length us)")
     (auto simp: less_Suc_eq_le length_dropWhile_le)

text \<open>\<open>replace(/&/g, '-and-')\<close>\<close>

definition replace_amp :: "int list \<Rightarrow> int list" where
  "replace_amp us = concat (map (\<lambda>u. if u = 38 then map of_char ''-and-'' else [u]) us)"

text \<open>\<open>replace(/--+/g, '-')\<close>: a run of two hyphens or more becomes one hyphen.\<close>

function collapse_hyphens :: "int list \<Rightarrow> int list" where
  "collapse_hyphens [] = []"
| "collapse_hyphens [u] = [u]"
| "collapse_hyphens (u # v # us) =
     (if u = 45 \<and> v = 45 then 45 # collapse_hyphens (dropWhile (\<lambda>x. x = 45) us)
      else u # collapse_hyphens (v # us))"
  by pat_completeness auto
termination
  by (relation "measure length") (auto simp: less_Suc_eq_le le_SucI length_dropWhile_le)

definition is_mark :: "int \<Rightarrow> bool" where
  "is_mark u \<longleftrightarrow> 0x300 \<le> u \<and> u \<le> 0x36F"

text \<open>The class \<open>[\w\-]\<close>: letters, digits, underscore and hyphen.\<close>

definition is_word_or_hyphen :: "int \<Rightarrow> bool" where
  "is_word_or_hyphen u \<longleftrightarrow>
     (48 \<le> u \<and> u \<le> 57) \<or> (65 \<le> u \<and> u \<le> 90) \<or> u = 95 \<or> (97 \<le> u \<and> u \<le> 122) \<or> u = 45"

definition slug_of :: "string \<Rightarrow> string" where
  "slug_of s =
     map char_of
       (collapse_hyphens
         (replace_runs (\<lambda>u. \<not> is_word_or_hyphen u) []
           (replace_amp
             (replace_runs is_space (map of_char ''-'')
               (replace_runs is_mark []
                 (normalize_NFD (trim (toLowerCase s))))))))"

definition slugify :: "val \<Rightarrow> error + val" where
  "slugify text = (if truthy text then bnd (ToString text) (\<lambda>s. Inr (JStr (slug_of s)))
                   else Inr (JStr []))"

section \<open>The requests\<close>

text \<open>
  \<open>getDataSourceId\<close>: the \<open>catch\<close> logs and throws the same error again, so every error
  of the body leaves the function.
\<close>

definition getDataSourceId :: "world \<Rightarrow> error + val" where
  "getDataSourceId w =
     bnd (database w) (\<lambda>databaseResponse.
     bnd (get databaseResponse ''data_sources'') (\<lambda>data_sources.
     bnd (if truthy data_sources then gt_zero w (opt_get data_sources ''length'')
          else Inr False) (\<lambda>found.
       if found then get (opt_get data_sources ''0'') ''id''
       else Inl (Error ''No data sources found in database''))))"

text \<open>\<open>getDatabaseData\<close>: every error of the body is caught and gives the empty array.\<close>

definition getDatabaseData_body :: "world \<Rightarrow> error + val" where
  "getDatabaseData_body w =
     bnd (getDataSourceId w) (\<lambda>dataSourceId.
     bnd (ToString dataSourceId) (\<lambda>path.
     bnd (query w path) (\<lambda>dataBaseData.
       get dataBaseData ''results'')))"

definition getDatabaseData :: "world \<Rightarrow> val" where
  "getDatabaseData w = (case getDatabaseData_body w of Inl e \<Rightarrow> JArr [] | Inr v \<Rightarrow> v)"

definition getPageBlockChildrenData :: "world \<Rightarrow> val \<Rightarrow> error + val" where
  "getPageBlockChildrenData w blockId = bnd (ToString blockId) (\<lambda>path. children w path)"

section \<open>Flattening the properties of a post\<close>

text \<open>
  \<open>mapNotionResponseToTextContent\<close>: an object with the one property \<open>key\<close>, or
  \<open>undefined\<close> when the \<open>switch\<close> is left by \<open>break\<close> or an error is caught.
\<close>

definition is_nonempty_array :: "val \<Rightarrow> bool" where
  "is_nonempty_array v = (case v of JArr xs \<Rightarrow> 0 < length xs | _ \<Rightarrow> False)"

definition mapNotion_body :: "string \<Rightarrow> val \<Rightarrow> error + val" where
  "mapNotion_body key property =
     bnd (get property ''type'') (\<lambda>t.
       if t = JStr ''rich_text'' \<or> t = JStr ''text'' \<or> t = JStr ''title'' then
         bnd (ToString t) (\<lambda>k.
           let payload = opt_get property k in
           if truthy payload \<and> is_nonempty_array payload
           then Inr (JObj [(key,
                  or_empty (opt_get (opt_get (opt_get payload ''0'') ''text'') ''content''))])
           else Inr Undefined)
       else if t = JStr ''files'' then
         bnd (ToString t) (\<lambda>k.
           let payload = opt_get property k in
           if truthy payload \<and> is_nonempty_array payload
           then Inr (JObj [(key,
                  or_empty (opt_get (opt_get (opt_get payload ''0'') ''file'') ''url''))])
           else Inr Undefined)
       else if t = JStr ''select'' then
         bnd (ToString t) (\<lambda>k.
           let payload = opt_get property k in
           if truthy payload
           then Inr (JObj [(key, or_empty (opt_get payload ''name''))])
           else Inr Undefined)
       else Inr Undefined)"

definition mapNotionResponseToTextContent :: "string \<times> val \<Rightarrow> val" where
  "mapNotionResponseToTextContent e =
     (case mapNotion_body (fst e) (snd e) of Inl err \<Rightarrow> Undefined | Inr v \<Rightarrow> v)"

text \<open>
  The filter of \<open>module.exports\<close>:
  \<open>property.select || (property[property.type] && property[property.type].length)\<close>.
  It runs outside every \<open>try\<close> of the mapping.
\<close>

definition nonempty_property :: "val \<Rightarrow> error + bool" where
  "nonempty_property property =
     bnd (get property ''select'') (\<lambda>sel.
       if truthy sel then Inr True
       else bnd (get property ''type'') (\<lambda>t.
            bnd (ToString t) (\<lambda>k.
              let payload = opt_get property k in
              Inr (truthy payload \<and> truthy (opt_get payload ''length'')))))"

definition flattenedProperties :: "val \<Rightarrow> error + (string \<times> val) list" where
  "flattenedProperties post =
     bnd (get post ''properties'') (\<lambda>properties.
     bnd (Object_entries properties) (\<lambda>es.
     bnd (filterM (\<lambda>e. nonempty_property (snd e)) es) (\<lambda>kept.
       Inr (fold (\<lambda>currentValue previousValue. spread previousValue currentValue)
              (map mapNotionResponseToTextContent kept) []))))"

text \<open>The callback of \<open>databaseData.map\<close>: one raw post to its flat record.\<close>

definition flatten :: "val \<Rightarrow> error + val" where
  "flatten post =
     bnd (flattenedProperties post) (\<lambda>fp.
     bnd (slugify (opt_get (JObj fp) ''Title'')) (\<lambda>slug.
       Inr (JObj (spread
              [(''id'', opt_get post ''id''),
               (''created'', opt_get post ''created_time''),
               (''url'', opt_get post ''url''),
               (''slug'', slug)]
              (JObj fp)))))"

section \<open>Rendering the blocks of a post\<close>

text \<open>\<open>blockContent?.text?.[0]?.text?.content || ''\<close>\<close>

definition first_text :: "val \<Rightarrow> val" where
  "first_text blockContent =
     or_empty (opt_get (opt_get (opt_get (opt_get blockContent ''text'') ''0'') ''text'')
       ''content'')"

definition convertBlock_body :: "val \<Rightarrow> error + val" where
  "convertBlock_body block =
     (if \<not> truthy block \<or> \<not> truthy (opt_get block ''type'') then Inr (JStr [])
      else
        let t = opt_get block ''type'' in
        bnd (ToString t) (\<lambda>k.
          let blockContent = opt_get block k in
          if \<not> truthy blockContent then Inr (JStr [])
          else
            bnd (if t = JStr ''heading_1'' then Inr (''#'', first_text blockContent)
                 else if t = JStr ''heading_2'' then Inr (''##'', first_text blockContent)
                 else if t = JStr ''heading_3'' then Inr (''###'', first_text blockContent)
                 else if t = JStr ''bulleted_list_item''
                   then Inr (''- '', first_text blockContent)
                 else if t = JStr ''paragraph'' then Inr ([], first_text blockContent)
                 else if t = JStr ''image'' then
                   bnd (ToString (or_empty (opt_get (opt_get blockContent ''file'') ''url'')))
                     (\<lambda>u. Inr ([], JStr (''![post block related]('' @ u @ '')'')))
                 else Inr ([], first_text blockContent))
              (\<lambda>(mdConvert, mdText).
                 if mdConvert \<noteq> [] \<and> truthy mdText
                 then bnd (ToString mdText) (\<lambda>s. Inr (JStr (mdConvert @ '' '' @ s)))
                 else Inr mdText)))"

text \<open>The callback of \<open>.map\<close> over the blocks: a caught error gives the empty string.\<close>

definition convertBlock :: "val \<Rightarrow> val" where
  "convertBlock block = (case convertBlock_body block of Inl e \<Rightarrow> JStr [] | Inr v \<Rightarrow> v)"

text \<open>
  \<open>(blockData.results || []).map(...).filter(text => text.length > 0).join('\n')\<close>;
  \<open>.map\<close> is a method of arrays only.
\<close>

definition mappedBlockData :: "world \<Rightarrow> val \<Rightarrow> error + val" where
  "mappedBlockData w blockData =
     bnd (get blockData ''results'') (\<lambda>results.
       case (if truthy results then results else JArr []) of
         JArr blocks \<Rightarrow>
           bnd (filterM (\<lambda>text. gt_zero w (opt_get text ''length''))
                  (map convertBlock blocks)) (\<lambda>lines.
           bnd (ToString_elems lines) (\<lambda>ss. Inr (JStr (join [CHR 0x0A] ss))))
       | _ \<Rightarrow> Inl TypeError)"

text \<open>The callback of \<open>results.map\<close> under \<open>Promise.all\<close>: the record with its body.\<close>

definition renderBlocks :: "world \<Rightarrow> val \<Rightarrow> error + val" where
  "renderBlocks w result =
     bnd (get result ''id'') (\<lambda>blockId.
     bnd (getPageBlockChildrenData w blockId) (\<lambda>blockData.
     bnd (mappedBlockData w blockData) (\<lambda>body.
       Inr (JObj (AList.update ''block'' body (spread [] result))))))"

section \<open>The module\<close>

text \<open>
  \<open>Promise.all\<close> gives the results in the order of its input and rejects when one of
  them rejects; the \<open>catch\<close> of the module does not look at the error, so which rejection
  comes first makes no difference.
\<close>

definition module_exports_body :: "world \<Rightarrow> error + val" where
  "module_exports_body w =
     (case getDatabaseData w of
        JArr databaseData \<Rightarrow>
          bnd (mapM flatten databaseData) (\<lambda>results.
          bnd (mapM (renderBlocks w) results) (\<lambda>finalResult.
            Inr (JObj [(''posts'', JArr finalResult)])))
      | _ \<Rightarrow> Inl TypeError)"

definition module_exports :: "world \<Rightarrow> val" where
  "module_exports w =
     (case module_exports_body w of
        Inl e \<Rightarrow> JObj [(''posts'', JArr [])]
      | Inr v \<Rightarrow> v)"

section \<open>The specification's reading of the operations\<close>

subsection \<open>The steps of the slug\<close>

text \<open>
  Collapsing the runs of a class of characters, read from left to right: a character of
  the class followed by another one is dropped, the last one of a run is replaced.
\<close>

fun squeeze :: "(int \<Rightarrow> bool) \<Rightarrow> int list \<Rightarrow> int list \<Rightarrow> int list" where
  "squeeze C r [] = []"
| "squeeze C r [u] = (if C u then r else [u])"
| "squeeze C r (u # v # us) =
     (if C u then (if C v then squeeze C r (v # us) else r @ squeeze C r (v # us))
      else u # squeeze C r (v # us))"

text \<open>
  Lowercase, trim, canonical decomposition with the diacritics stripped, white space runs
  to single hyphens, \<open>&\<close> to \<open>-and-\<close>, every character that is not a word character or a
  hyphen stripped, consecutive hyphens collapsed to one.
\<close>

definition spec_slug :: "string \<Rightarrow> string" where
  "spec_slug s =
     (let lowered = toLowerCase s;
          trimmed = trim lowered;
          stripped = filter (\<lambda>u. \<not> is_mark u) (normalize_NFD trimmed);
          hyphenated = squeeze is_space [45] stripped;
          amp = replace_amp hyphenated;
          cleaned = filter is_word_or_hyphen amp;
          collapsed = squeeze (\<lambda>u. u = 45) [45] cleaned
      in map char_of collapsed)"

subsection \<open>Typed properties\<close>

text \<open>
  The property values of the data model: the text-like kinds carry text runs, of which a
  run may have no text content; \<open>files\<close> carries file entries, of which an entry may
  have no hosted file; \<open>select\<close> carries an option, which may be null and may have no
  name; any other kind carries some payload.
\<close>

datatype text_kind = Rich_text | Text | Title

datatype property_value =
    Text_like text_kind "string option list"
  | Files "string option list"
  | Select "string option option"
  | Other_kind string val

fun kind_name :: "text_kind \<Rightarrow> string" where
  "kind_name Rich_text = ''rich_text''"
| "kind_name Text = ''text''"
| "kind_name Title = ''title''"

fun encode_run :: "string option \<Rightarrow> val" where
  "encode_run (Some c) = JObj [(''type'', JStr ''text''), (''text'', JObj [(''content'', JStr c)])]"
| "encode_run None = JObj [(''type'', JStr ''mention'')]"

fun encode_file :: "string option \<Rightarrow> val" where
  "encode_file (Some u) = JObj [(''type'', JStr ''file''), (''file'', JObj [(''url'', JStr u)])]"
| "encode_file None = JObj [(''type'', JStr ''external'')]"

fun encode_property :: "property_value \<Rightarrow> val" where
  "encode_property (Text_like k runs) =
     JObj [(''type'', JStr (kind_name k)), (kind_name k, JArr (map encode_run runs))]"
| "encode_property (Files fs) =
     JObj [(''type'', JStr ''files''), (''files'', JArr (map encode_file fs))]"
| "encode_property (Select None) = JObj [(''type'', JStr ''select''), (''select'', Null)]"
| "encode_property (Select (Some None)) =
     JObj [(''type'', JStr ''select''), (''select'', JObj [(''color'', JStr ''default'')])]"
| "encode_property (Select (Some (Some n))) =
     JObj [(''type'', JStr ''select''), (''select'', JObj [(''name'', JStr n)])]"
| "encode_property (Other_kind k payload) = JObj [(''type'', JStr k), (k, payload)]"

text \<open>The kinds that are not flattened are all kinds but the five above.\<close>

fun wf_property :: "property_value \<Rightarrow> bool" where
  "wf_property (Other_kind k payload) =
     (k \<notin> set [''rich_text'', ''text'', ''title'', ''files'', ''select'', ''type''])"
| "wf_property p = True"

definition raw_post :: "val \<Rightarrow> val \<Rightarrow> val \<Rightarrow> (string \<times> property_value) list \<Rightarrow> val" where
  "raw_post pid created url bag =
     JObj [(''id'', pid), (''created_time'', created), (''url'', url),
           (''properties'', JObj (map (\<lambda>(k, p). (k, encode_property p)) bag))]"

text \<open>
  The display string of a property, when it has one: the content of the first text run,
  the URL of the first file entry, the name of the option; the empty string where that is
  absent. An empty value and a property of another kind have none.
\<close>

fun display :: "property_value \<Rightarrow> string option" where
  "display (Text_like k []) = None"
| "display (Text_like k (r # rs)) = Some (case r of Some c \<Rightarrow> c | None \<Rightarrow> [])"
| "display (Files []) = None"
| "display (Files (f # fs)) = Some (case f of Some u \<Rightarrow> u | None \<Rightarrow> [])"
| "display (Select None) = None"
| "display (Select (Some n)) = Some (case n of Some s \<Rightarrow> s | None \<Rightarrow> [])"
| "display (Other_kind k payload) = None"

definition spec_flattened :: "(string \<times> property_value) list \<Rightarrow> (string \<times> val) list" where
  "spec_flattened bag =
     List.map_filter (\<lambda>(k, p). map_option (\<lambda>s. (k, JStr s)) (display p)) bag"

text \<open>The display string of the property \<open>Title\<close>, empty when there is none.\<close>

definition title_of :: "(string \<times> property_value) list \<Rightarrow> string" where
  "title_of bag =
     (case map_of bag ''Title'' of
        None \<Rightarrow> []
      | Some p \<Rightarrow> (case display p of None \<Rightarrow> [] | Some s \<Rightarrow> s))"

subsection \<open>Typed blocks\<close>

text \<open>
  The blocks of the data model: a text block carries the contents of its text runs, an
  image its file URL when it has one, a block of another kind its text runs when it has
  any.
\<close>

datatype block =
    Heading_1 "string list"
  | Heading_2 "string list"
  | Heading_3 "string list"
  | Bulleted_list_item "string list"
  | Paragraph "string list"
  | Image "string option"
  | Other_block string "string list option"

definition text_payload :: "string list \<Rightarrow> val" where
  "text_payload runs = JObj [(''text'', JArr (map (\<lambda>c. encode_run (Some c)) runs))]"

definition typed_block :: "string \<Rightarrow> val \<Rightarrow> val" where
  "typed_block k payload = JObj [(''object'', JStr ''block''), (''type'', JStr k), (k, payload)]"

fun encode_block :: "block \<Rightarrow> val" where
  "encode_block (Heading_1 runs) = typed_block ''heading_1'' (text_payload runs)"
| "encode_block (Heading_2 runs) = typed_block ''heading_2'' (text_payload runs)"
| "encode_block (Heading_3 runs) = typed_block ''heading_3'' (text_payload runs)"
| "encode_block (Bulleted_list_item runs) =
     typed_block ''bulleted_list_item'' (text_payload runs)"
| "encode_block (Paragraph runs) = typed_block ''paragraph'' (text_payload runs)"
| "encode_block (Image (Some u)) =
     typed_block ''image'' (JObj [(''type'', JStr ''file''), (''file'', JObj [(''url'', JStr u)])])"
| "encode_block (Image None) = typed_block ''image'' (JObj [(''type'', JStr ''external'')])"
| "encode_block (Other_block k (Some runs)) = typed_block k (text_payload runs)"
| "encode_block (Other_block k None) = typed_block k (JObj [])"

text \<open>The answer of the request for the children of a block.\<close>

definition block_page :: "val list \<Rightarrow> val" where
  "block_page blocks = JObj [(''object'', JStr ''list''), (''results'', JArr blocks)]"

definition block_list :: "block list \<Rightarrow> val" where
  "block_list bs = block_page (map encode_block bs)"

fun wf_block :: "block \<Rightarrow> bool" where
  "wf_block (Other_block k runs) =
     (k \<notin> set [[], ''object'', ''type'', ''heading_1'', ''heading_2'', ''heading_3'',
                ''bulleted_list_item'', ''paragraph'', ''image''])"
| "wf_block b = True"

fun first_run :: "string list \<Rightarrow> string" where
  "first_run [] = []"
| "first_run (c # cs) = c"

fun prefix_of :: "block \<Rightarrow> string" where
  "prefix_of (Heading_1 runs) = ''#''"
| "prefix_of (Heading_2 runs) = ''##''"
| "prefix_of (Heading_3 runs) = ''###''"
| "prefix_of (Bulleted_list_item runs) = ''- ''"
| "prefix_of b = []"

fun text_of :: "block \<Rightarrow> string" where
  "text_of (Heading_1 runs) = first_run runs"
| "text_of (Heading_2 runs) = first_run runs"
| "text_of (Heading_3 runs) = first_run runs"
| "text_of (Bulleted_list_item runs) = first_run runs"
| "text_of (Paragraph runs) = first_run runs"
| "text_of (Image url) =
     ''![post block related]('' @ (case url of Some u \<Rightarrow> u | None \<Rightarrow> []) @ '')''"
| "text_of (Other_block k runs) = (case runs of Some rs \<Rightarrow> first_run rs | None \<Rightarrow> [])"

text \<open>
  The line is \<open>prefix text\<close> when both are non-empty, the text alone otherwise; the
  empty lines are dropped and the others joined by a newline.
\<close>

definition line_of :: "block \<Rightarrow> string" where
  "line_of b =
     (if prefix_of b \<noteq> [] \<and> text_of b \<noteq> [] then prefix_of b @ '' '' @ text_of b
      else text_of b)"

definition spec_renderBlocks :: "block list \<Rightarrow> string" where
  "spec_renderBlocks bs = join [CHR 0x0A] (filter (\<lambda>l. l \<noteq> []) (map line_of bs))"

section \<open>Example data\<close>

definition offline :: "string \<Rightarrow> error + val" where
  "offline path = Inl (Rejected ''offline'')"

definition world_of :: "error + val \<Rightarrow> world" where
  "world_of db =
     \<lparr>database = db, query = offline, children = offline, string_positive = (\<lambda>s. False)\<rparr>"

text \<open>
  A database with one data source, the posts it holds and the blocks of the pages
  \<open>p1\<close> and \<open>p2\<close>.
\<close>

definition example_world :: "val list \<Rightarrow> world" where
  "example_world posts =
     \<lparr>database = Inr (JObj [(''object'', JStr ''database''),
                   (''data_sources'', JArr [JObj [(''id'', JStr ''ds-1'')]])]),
      query = (\<lambda>path. if path = ''ds-1''
                 then Inr (JObj [(''object'', JStr ''list''), (''results'', JArr posts)])
                 else Inl (Rejected ''404'')),
      children = (\<lambda>path.
         if path = ''p1''
           then Inr (block_list [Heading_1 [''Intro''], Paragraph [''Body text''],
                       Image (Some ''http://x/y.png'')])
         else if path = ''p2'' then Inr (block_list [Paragraph [''Second body'']])
         else Inl (Rejected ''404'')),
      string_positive = (\<lambda>s. False)\<rparr>"

definition first_post :: val where
  "first_post =
     raw_post (JStr ''p1'') (JStr ''2024-01-01T00:00:00.000Z'') (JStr ''https://notion.so/p1'')
       [(''Title'', Text_like Title [Some ''My Post'']),
        (''Status'', Select (Some (Some ''Published'')))]"


definition null_title_post :: val where
  "null_title_post =
     JObj [(''id'', JStr ''p2''), (''created_time'', JStr ''2024-02-01T00:00:00.000Z''),
           (''url'', JStr ''https://notion.so/p2''),
           (''properties'', JObj [(''Title'', Null)])]"

text \<open>A post with properties named like the fixed fields of the record.\<close>

definition slug_property_post :: val where
  "slug_property_post =
     raw_post (JStr ''p3'') (JStr ''2024-03-01T00:00:00.000Z'') (JStr ''https://notion.so/p3'')
       [(''Title'', Text_like Title [Some ''My Post'']),
        (''slug'', Text_like Rich_text [Some ''Custom Slug!'']),
        (''url'', Files [Some ''https://files/x.png''])]"

section \<open>Properties\<close>

subsection \<open>Auxiliary facts\<close>

lemma bnd_Inl [simp]: "bnd (Inl e) f = Inl e"
  by (simp add: bnd_def)

lemma bnd_Inr [simp]: "bnd (Inr x) f = f x"
  by (simp add: bnd_def)

lemma show_nat_0: "show_nat 0 = ''0''"
  by (simp add: show_nat.simps)

lemma opt_get_first [simp]: "opt_get (JArr (x # xs)) ''0'' = x"
  by (simp add: upt_conv_Cons show_nat_0 del: upt_Suc)

lemma opt_get_first_Nil [simp]: "opt_get (JArr []) ''0'' = Undefined"
  by simp

lemma opt_get_length [simp]:
  "opt_get (JArr xs) ''length'' = JNum (int (length xs))"
  "opt_get (JStr s) ''length'' = JNum (int (length s))"
  by simp_all

declare opt_get.simps(2,3) [simp del]

subsection \<open>The slug\<close>

lemma filter_dropWhile_not: "filter (\<lambda>u. \<not> C u) (dropWhile C us) = filter (\<lambda>u. \<not> C u) us"
  by (induction us) auto

lemma replace_runs_empty: "replace_runs C [] us = filter (\<lambda>u. \<not> C u) us"
  by (induction C "[] :: int list" us rule: replace_runs.induct)
     (auto simp: filter_dropWhile_not)

lemma replace_runs_squeeze: "replace_runs C r us = squeeze C r us"
  by (induction C r us rule: squeeze.induct) auto

lemma collapse_hyphens_runs: "collapse_hyphens us = replace_runs (\<lambda>u. u = 45) [45] us"
  by (induction us rule: collapse_hyphens.induct) auto

lemma slug_of_spec: "slug_of s = spec_slug s"
  unfolding slug_of_def spec_slug_def Let_def replace_runs_empty collapse_hyphens_runs
  by (simp add: replace_runs_squeeze)

lemma spec_slug_Nil: "spec_slug [] = []"
  by code_simp

lemma slugify_JStr: "slugify (JStr s) = Inr (JStr (spec_slug s))"
  by (cases s) (simp_all add: slugify_def slug_of_spec spec_slug_Nil)

text \<open>
  Claim C2. \<open>slugify\<close> applies the steps of the specification in their order: the
  regular expression replacements of the code compute, on every string, the lowercased,
  trimmed, decomposed text without its marks, with white space runs as single hyphens,
  \<open>&\<close> as \<open>-and-\<close>, only word characters and hyphens kept and hyphen runs collapsed. The
  slug of \<open>Hello & World! Deja Vu\<close>, written with its two accents, is \<open>hello-and-world-deja-vu\<close>, and the slug of the
  empty string and of \<open>undefined\<close> is the empty string, not an error.
\<close>

theorem slugify_steps:
  "slugify (JStr s) = Inr (JStr (spec_slug s))
   \<and> slugify (JStr (''Hello & World! D'' @ [CHR 0xE9] @ ''j'' @ [CHR 0xE0] @ '' Vu''))
       = Inr (JStr ''hello-and-world-deja-vu'')
   \<and> slugify (JStr []) = Inr (JStr [])
   \<and> slugify Undefined = Inr (JStr [])"
proof -
  have general: "slugify (JStr s) = Inr (JStr (spec_slug s))"
    by (rule slugify_JStr)
  have example:
    "slugify (JStr (''Hello & World! D'' @ [CHR 0xE9] @ ''j'' @ [CHR 0xE0] @ '' Vu''))
       = Inr (JStr ''hello-and-world-deja-vu'')"
    by code_simp
  have absent: "slugify (JStr []) = Inr (JStr [])" "slugify Undefined = Inr (JStr [])"
    by (simp_all add: slugify_def)
  from general example absent show ?thesis by blast
qed

subsection \<open>The requests\<close>

text \<open>
  Claim C6. When the database answer lists data sources, \<open>getDataSourceId\<close> returns the
  identifier of the first one; when the field \<open>data_sources\<close> is absent, null or the empty
  list, it fails with the error \<open>No data sources found in database\<close> and returns no value.
\<close>

theorem getDataSourceId_first_or_error:
  assumes "database w = Inr (JObj kvs)"
  shows "(map_of kvs ''data_sources'' = Some (JArr (d # ds)) \<and> \<not> nullish d
            \<longrightarrow> getDataSourceId w = Inr (opt_get d ''id''))
       \<and> (map_of kvs ''data_sources'' \<in> {None, Some Null, Some (JArr [])}
            \<longrightarrow> getDataSourceId w = Inl (Error ''No data sources found in database''))"
  using assms
  by (auto simp: getDataSourceId_def get_def)

theorem getDataSourceId_first_or_error_witness:
  "getDataSourceId
     (world_of (Inr (JObj [(''object'', JStr ''database''),
        (''data_sources'', JArr [JObj [(''id'', JStr ''ds-1''), (''name'', JStr ''Posts'')],
                                JObj [(''id'', JStr ''ds-2'')]])])))
     = Inr (JStr ''ds-1'')
   \<and> getDataSourceId (world_of (Inr (JObj [(''object'', JStr ''database'')])))
     = Inl (Error ''No data sources found in database'')
   \<and> getDataSourceId
        (world_of (Inr (JObj [(''object'', JStr ''database''), (''data_sources'', JArr [])])))
     = Inl (Error ''No data sources found in database'')"
  using
    getDataSourceId_first_or_error
      [of "world_of (Inr (JObj [(''object'', JStr ''database''),
             (''data_sources'', JArr [JObj [(''id'', JStr ''ds-1''), (''name'', JStr ''Posts'')],
                                     JObj [(''id'', JStr ''ds-2'')]])]))"
          "[(''object'', JStr ''database''),
             (''data_sources'', JArr [JObj [(''id'', JStr ''ds-1''), (''name'', JStr ''Posts'')],
                                     JObj [(''id'', JStr ''ds-2'')]])]"
          "JObj [(''id'', JStr ''ds-1''), (''name'', JStr ''Posts'')]"
          "[JObj [(''id'', JStr ''ds-2'')]]"]
    getDataSourceId_first_or_error
      [of "world_of (Inr (JObj [(''object'', JStr ''database'')]))"
          "[(''object'', JStr ''database'')]"]
    getDataSourceId_first_or_error
      [of "world_of (Inr (JObj [(''object'', JStr ''database''), (''data_sources'', JArr [])]))"
          "[(''object'', JStr ''database''), (''data_sources'', JArr [])]"]
  by (simp add: world_of_def)

text \<open>
  Claim C5. When the request for the database, the resolution of the data source or the
  query request fails, \<open>getDatabaseData\<close> gives the empty array and the module resolves to
  \<open>{posts: []}\<close>; the result of the module is a value in every case.
\<close>

theorem query_failure_gives_no_posts:
  assumes "database w = Inl e
         \<or> getDataSourceId w = Inl e
         \<or> (\<exists>dataSourceId path. getDataSourceId w = Inr dataSourceId
               \<and> ToString dataSourceId = Inr path \<and> query w path = Inl e)"
  shows "getDatabaseData w = JArr [] \<and> module_exports w = JObj [(''posts'', JArr [])]"
proof -
  have "getDatabaseData_body w = Inl e"
    using assms by (auto simp: getDatabaseData_body_def getDataSourceId_def)
  then have "getDatabaseData w = JArr []"
    by (simp add: getDatabaseData_def)
  then show ?thesis
    by (simp add: module_exports_def module_exports_body_def)
qed

theorem query_failure_gives_no_posts_witness:
  "getDatabaseData (world_of (Inl (Rejected ''timeout''))) = JArr []
   \<and> module_exports (world_of (Inl (Rejected ''timeout''))) = JObj [(''posts'', JArr [])]
   \<and> getDatabaseData (world_of (Inr (JObj [(''data_sources'', JArr [JObj [(''id'', JStr ''ds-1'')]])])))
       = JArr []
   \<and> module_exports (world_of (Inr (JObj [(''data_sources'', JArr [JObj [(''id'', JStr ''ds-1'')]])])))
       = JObj [(''posts'', JArr [])]"
  using
    query_failure_gives_no_posts
      [of "world_of (Inl (Rejected ''timeout''))" "Rejected ''timeout''"]
    query_failure_gives_no_posts
      [of "world_of (Inr (JObj [(''data_sources'', JArr [JObj [(''id'', JStr ''ds-1'')]])]))"
          "Rejected ''offline''"]
  by (simp add: world_of_def offline_def getDataSourceId_def get_def)

subsection \<open>Flattening\<close>

lemma or_empty_JStr [simp]: "or_empty (JStr s) = JStr s"
  by (simp add: or_empty_def)

lemma or_empty_Undefined [simp]: "or_empty Undefined = JStr []"
  by (simp add: or_empty_def)

lemma nonempty_encode_property:
  assumes "wf_property p"
  shows "\<exists>b. nonempty_property (encode_property p) = Inr b \<and> (display p \<noteq> None \<longrightarrow> b)"
proof (cases p)
  case (Text_like k runs)
  then show ?thesis
    by (cases k; cases runs) (auto simp: nonempty_property_def get_def)
next
  case (Files fs)
  then show ?thesis
    by (cases fs) (auto simp: nonempty_property_def get_def)
next
  case (Select sel)
  then show ?thesis
  proof (cases sel)
    case None
    with Select show ?thesis by (auto simp: nonempty_property_def get_def)
  next
    case (Some n)
    with Select show ?thesis by (cases n) (auto simp: nonempty_property_def get_def)
  qed
next
  case (Other_kind k payload)
  with assms show ?thesis
    by (auto simp: nonempty_property_def get_def)
qed

lemma mapNotion_encode_property:
  assumes "wf_property p"
  shows "mapNotionResponseToTextContent (key, encode_property p)
         = (case display p of None \<Rightarrow> Undefined | Some s \<Rightarrow> JObj [(key, JStr s)])"
proof (cases p)
  case (Text_like k runs)
  show ?thesis
  proof (cases runs)
    case Nil
    with Text_like show ?thesis
      by (cases k)
         (simp_all add: mapNotionResponseToTextContent_def mapNotion_body_def get_def
           is_nonempty_array_def)
  next
    case (Cons r rs)
    with Text_like show ?thesis
      by (cases k; cases r)
         (simp_all add: mapNotionResponseToTextContent_def mapNotion_body_def get_def
           is_nonempty_array_def)
  qed
next
  case (Files fs)
  show ?thesis
  proof (cases fs)
    case Nil
    with Files show ?thesis
      by (simp add: mapNotionResponseToTextContent_def mapNotion_body_def get_def
           is_nonempty_array_def)
  next
    case (Cons f fs')
    with Files show ?thesis
      by (cases f)
         (simp_all add: mapNotionResponseToTextContent_def mapNotion_body_def get_def
           is_nonempty_array_def)
  qed
next
  case (Select sel)
  then show ?thesis
  proof (cases sel)
    case None
    with Select show ?thesis
      by (simp add: mapNotionResponseToTextContent_def mapNotion_body_def get_def)
  next
    case (Some n)
    with Select show ?thesis
      by (cases n)
         (simp_all add: mapNotionResponseToTextContent_def mapNotion_body_def get_def)
  qed
next
  case (Other_kind k payload)
  with assms show ?thesis
    by (simp add: mapNotionResponseToTextContent_def mapNotion_body_def get_def)
qed

lemma update_fresh: "k \<notin> fst ` set acc \<Longrightarrow> AList.update k v acc = acc @ [(k, v)]"
  by (induction acc) auto

lemma spread_Undefined [simp]: "spread acc Undefined = acc"
  by (simp add: spread_def)

lemma spread_single: "k \<notin> fst ` set acc \<Longrightarrow> spread acc (JObj [(k, v)]) = acc @ [(k, v)]"
  by (simp add: spread_def update_fresh)

lemma spec_flattened_Nil [simp]: "spec_flattened [] = []"
  by (simp add: spec_flattened_def map_filter_simps)

lemma spec_flattened_Cons:
  "spec_flattened ((k, p) # bag)
   = (case display p of None \<Rightarrow> [] | Some s \<Rightarrow> [(k, JStr s)]) @ spec_flattened bag"
  by (simp add: spec_flattened_def map_filter_simps split: option.splits)

lemma flatten_fold:
  assumes "\<forall>e \<in> set bag. wf_property (snd e)"
    and "distinct (map fst bag)"
    and "fst ` set bag \<inter> fst ` set acc = {}"
  shows "\<exists>kept. filterM (\<lambda>e. nonempty_property (snd e))
                   (map (\<lambda>(k, p). (k, encode_property p)) bag) = Inr kept
          \<and> fold (\<lambda>currentValue previousValue. spread previousValue currentValue)
               (map mapNotionResponseToTextContent kept) acc
             = acc @ spec_flattened bag"
  using assms
proof (induction bag arbitrary: acc)
  case Nil
  then show ?case by simp
next
  case (Cons e bag)
  obtain k p where e: "e = (k, p)" by (cases e)
  from Cons.prems e have wf: "wf_property p" and fresh: "k \<notin> fst ` set acc"
    by auto
  from nonempty_encode_property [OF wf] obtain b
    where b: "nonempty_property (encode_property p) = Inr b"
      and shown: "display p \<noteq> None \<longrightarrow> b"
    by blast
  define new where "new = (case display p of None \<Rightarrow> [] | Some s \<Rightarrow> [(k, JStr s)])"
  have step: "(if b then spread acc (mapNotionResponseToTextContent (k, encode_property p))
               else acc) = acc @ new"
    using shown fresh
    by (auto simp: new_def mapNotion_encode_property [OF wf] spread_single
        split: option.splits)
  have "fst ` set new \<subseteq> {k}"
    by (auto simp: new_def split: option.splits)
  with Cons.prems e have disj: "fst ` set bag \<inter> fst ` set (acc @ new) = {}"
    by auto
  from Cons.prems have "\<forall>e \<in> set bag. wf_property (snd e)" "distinct (map fst bag)"
    by auto
  from Cons.IH [OF this disj] obtain kept
    where kept: "filterM (\<lambda>e. nonempty_property (snd e))
                   (map (\<lambda>(k, p). (k, encode_property p)) bag) = Inr kept"
      and folded: "fold (\<lambda>currentValue previousValue. spread previousValue currentValue)
               (map mapNotionResponseToTextContent kept) (acc @ new)
             = (acc @ new) @ spec_flattened bag"
    by blast
  show ?case
    using b kept folded step
    by (cases b) (simp_all add: e spec_flattened_Cons new_def)
qed

lemma flattenedProperties_raw_post:
  assumes "\<forall>e \<in> set bag. wf_property (snd e)" and "distinct (map fst bag)"
  shows "flattenedProperties (raw_post pid created url bag) = Inr (spec_flattened bag)"
proof -
  from flatten_fold [OF assms, of "[]"] obtain kept
    where "filterM (\<lambda>e. nonempty_property (snd e))
                   (map (\<lambda>(k, p). (k, encode_property p)) bag) = Inr kept"
      and "fold (\<lambda>currentValue previousValue. spread previousValue currentValue)
               (map mapNotionResponseToTextContent kept) [] = spec_flattened bag"
    by auto
  then show ?thesis
    by (simp add: flattenedProperties_def raw_post_def get_def Object_entries_def)
qed

lemma map_of_spec_flattened:
  "distinct (map fst bag) \<Longrightarrow>
   map_of (spec_flattened bag) k = Option.bind (map_of bag k) (\<lambda>p. map_option JStr (display p))"
proof (induction bag)
  case Nil
  then show ?case by simp
next
  case (Cons e bag)
  obtain k' p where e: "e = (k', p)" by (cases e)
  from Cons.prems e have "k' \<notin> fst ` set bag" by simp
  then have "map_of bag k' = None"
    by (simp add: map_of_eq_None_iff)
  with Cons e show ?case
    by (cases "display p") (auto simp: spec_flattened_Cons)
qed

lemma title_of_spec_flattened:
  assumes "distinct (map fst bag)"
  shows "slugify (opt_get (JObj (spec_flattened bag)) ''Title'')
         = Inr (JStr (spec_slug (title_of bag)))"
proof (cases "map_of (spec_flattened bag) ''Title''")
  case None
  with map_of_spec_flattened [OF assms, of "''Title''"] show ?thesis
    by (auto simp: title_of_def slugify_def spec_slug_Nil split: option.splits
        simp: bind_eq_None_conv)
next
  case (Some v)
  with map_of_spec_flattened [OF assms, of "''Title''"] show ?thesis
    by (auto simp: title_of_def slugify_JStr split: option.splits
        simp: bind_eq_Some_conv)
qed

text \<open>
  Claim C3. On a raw post of the data model, with distinct property names, the flattened
  properties are exactly the properties that have a display string, each under its own
  name: the content of the first text run for \<open>rich_text\<close>, \<open>text\<close> and \<open>title\<close>, the
  URL of the first file entry for \<open>files\<close>, the name of the option for \<open>select\<close>, the
  empty string where that is absent; a property with an empty array or a null option and
  a property of any other kind are left out. The record has the identifier, the creation
  time and the URL of the post and the slug of its title. The post with the title
  \<open>My Post\<close> and the status \<open>Published\<close> flattens to these two fields and the slug
  \<open>my-post\<close>.
\<close>

theorem flatten_by_kind:
  assumes "\<forall>e \<in> set bag. wf_property (snd e)" and "distinct (map fst bag)"
  shows "flattenedProperties (raw_post pid created url bag) = Inr (spec_flattened bag)
       \<and> map_of (spec_flattened bag) k
           = Option.bind (map_of bag k) (\<lambda>p. map_option JStr (display p))
       \<and> flatten (raw_post pid created url bag)
           = Inr (JObj (spread
               [(''id'', pid), (''created'', created), (''url'', url),
                (''slug'', JStr (spec_slug (title_of bag)))]
               (JObj (spec_flattened bag))))"
proof -
  have fp: "flattenedProperties (raw_post pid created url bag) = Inr (spec_flattened bag)"
    using assms by (rule flattenedProperties_raw_post)
  have fields: "opt_get (raw_post pid created url bag) ''id'' = pid"
    "opt_get (raw_post pid created url bag) ''created_time'' = created"
    "opt_get (raw_post pid created url bag) ''url'' = url"
    by (simp_all add: raw_post_def)
  have "flatten (raw_post pid created url bag)
           = Inr (JObj (spread
               [(''id'', pid), (''created'', created), (''url'', url),
                (''slug'', JStr (spec_slug (title_of bag)))]
               (JObj (spec_flattened bag))))"
    unfolding flatten_def fp fields bnd_Inr title_of_spec_flattened [OF assms(2)]
    by (rule refl)
  with fp map_of_spec_flattened [OF assms(2)] show ?thesis
    by simp
qed

theorem flatten_by_kind_witness:
  "flattenedProperties first_post
     = Inr [(''Title'', JStr ''My Post''), (''Status'', JStr ''Published'')]
   \<and> flatten first_post
     = Inr (JObj [(''id'', JStr ''p1''), (''created'', JStr ''2024-01-01T00:00:00.000Z''),
                  (''url'', JStr ''https://notion.so/p1''), (''slug'', JStr ''my-post''),
                  (''Title'', JStr ''My Post''), (''Status'', JStr ''Published'')])"
proof -
  have slug: "spec_slug ''My Post'' = ''my-post''"
    by code_simp
  have flat: "spec_flattened [(''Title'', Text_like Title [Some ''My Post'']),
        (''Status'', Select (Some (Some ''Published'')))]
      = [(''Title'', JStr ''My Post''), (''Status'', JStr ''Published'')]"
    by (simp add: spec_flattened_Cons)
  show ?thesis
    using flatten_by_kind
      [of "[(''Title'', Text_like Title [Some ''My Post'']),
            (''Status'', Select (Some (Some ''Published'')))]"
          "JStr ''p1''" "JStr ''2024-01-01T00:00:00.000Z''" "JStr ''https://notion.so/p1''"]
    by (simp add: first_post_def flat title_of_def slug spread_def)
qed

lemma fold_update_other:
  "k \<notin> fst ` set es \<Longrightarrow>
   map_of (fold (\<lambda>(k, x) kvs. AList.update k x kvs) es acc) k = map_of acc k"
  by (induction es arbitrary: acc) (auto simp: update_conv')

lemma fold_update_written:
  "distinct (map fst es) \<Longrightarrow> map_of es k = Some v \<Longrightarrow>
   map_of (fold (\<lambda>(k, x) kvs. AList.update k x kvs) es acc) k = Some v"
proof (induction es arbitrary: acc)
  case Nil
  then show ?case by simp
next
  case (Cons e es)
  obtain k' x where e: "e = (k', x)" by (cases e)
  show ?case
  proof (cases "k = k'")
    case True
    with Cons.prems e have "x = v" and "k \<notin> fst ` set es" by auto
    with True e show ?thesis
      by (simp add: fold_update_other update_conv')
  next
    case False
    with Cons e show ?thesis by simp
  qed
qed

lemma distinct_spread: "distinct (map fst acc) \<Longrightarrow> distinct (map fst (spread acc v))"
proof -
  have "distinct (map fst acc) \<Longrightarrow>
        distinct (map fst (fold (\<lambda>(k, x) kvs. AList.update k x kvs) es acc))" for es
    by (induction es arbitrary: acc) (auto simp: distinct_update)
  then show "distinct (map fst acc) \<Longrightarrow> distinct (map fst (spread acc v))"
    by (simp add: spread_def)
qed

lemma distinct_fold_spread:
  "distinct (map fst acc) \<Longrightarrow>
   distinct (map fst (fold (\<lambda>currentValue previousValue. spread previousValue currentValue)
     vs acc))"
  by (induction vs arbitrary: acc) (simp_all add: distinct_spread)

lemma distinct_flattenedProperties:
  assumes "flattenedProperties post = Inr fp"
  shows "distinct (map fst fp)"
proof -
  from assms obtain kept
    where "fp = fold (\<lambda>currentValue previousValue. spread previousValue currentValue)
                  (map mapNotionResponseToTextContent kept) []"
    unfolding flattenedProperties_def bnd_def
    by (auto split: sum.splits)
  then show ?thesis
    by (simp add: distinct_fold_spread)
qed

text \<open>
  Claim C9. The flattened properties are spread into the record after its fixed fields:
  a flattened property named \<open>slug\<close>, \<open>id\<close>, \<open>created\<close> or \<open>url\<close> is the value of that field
  of the record, in place of the slug of the title, the identifier, the creation time or
  the URL of the post.
\<close>

theorem flattened_property_overrides_field:
  assumes "flattenedProperties post = Inr fp"
    and "flatten post = Inr final"
    and "k \<in> set [''slug'', ''id'', ''created'', ''url'']"
    and "map_of fp k = Some v"
  shows "opt_get final k = v"
proof -
  from assms(1,2) obtain slug
    where final: "final = JObj (spread
              [(''id'', opt_get post ''id''),
               (''created'', opt_get post ''created_time''),
               (''url'', opt_get post ''url''),
               (''slug'', slug)]
              (JObj fp))"
    unfolding flatten_def
    by (cases "slugify (opt_get (JObj fp) ''Title'')") auto
  have "map_of (spread
              [(''id'', opt_get post ''id''),
               (''created'', opt_get post ''created_time''),
               (''url'', opt_get post ''url''),
               (''slug'', slug)]
              (JObj fp)) k = Some v"
    unfolding spread_def entries.simps
    using distinct_flattenedProperties [OF assms(1)] assms(4)
    by (rule fold_update_written)
  with final show ?thesis
    by simp
qed

lemma slug_property_flattened:
  "flattenedProperties slug_property_post
   = Inr [(''Title'', JStr ''My Post''), (''slug'', JStr ''Custom Slug!''),
          (''url'', JStr ''https://files/x.png'')]"
  by code_simp

lemma slug_property_flat:
  "flatten slug_property_post
   = Inr (JObj [(''id'', JStr ''p3''), (''created'', JStr ''2024-03-01T00:00:00.000Z''),
                (''url'', JStr ''https://files/x.png''), (''slug'', JStr ''Custom Slug!''),
                (''Title'', JStr ''My Post'')])"
  by code_simp

theorem flattened_property_overrides_field_witness:
  "opt_get (JObj [(''id'', JStr ''p3''), (''created'', JStr ''2024-03-01T00:00:00.000Z''),
                (''url'', JStr ''https://files/x.png''), (''slug'', JStr ''Custom Slug!''),
                (''Title'', JStr ''My Post'')]) ''slug'' = JStr ''Custom Slug!''
   \<and> opt_get (JObj [(''id'', JStr ''p3''), (''created'', JStr ''2024-03-01T00:00:00.000Z''),
                (''url'', JStr ''https://files/x.png''), (''slug'', JStr ''Custom Slug!''),
                (''Title'', JStr ''My Post'')]) ''url'' = JStr ''https://files/x.png''
   \<and> flatten slug_property_post
     = Inr (JObj [(''id'', JStr ''p3''), (''created'', JStr ''2024-03-01T00:00:00.000Z''),
                (''url'', JStr ''https://files/x.png''), (''slug'', JStr ''Custom Slug!''),
                (''Title'', JStr ''My Post'')])
   \<and> slugify (JStr ''My Post'') = Inr (JStr ''my-post'')
   \<and> opt_get slug_property_post ''url'' = JStr ''https://notion.so/p3''"
proof -
  have canonical: "slugify (JStr ''My Post'') = Inr (JStr ''my-post'')"
    "opt_get slug_property_post ''url'' = JStr ''https://notion.so/p3''"
    by code_simp+
  from flattened_property_overrides_field
    [OF slug_property_flattened slug_property_flat, of "''slug''" "JStr ''Custom Slug!''"]
    flattened_property_overrides_field
    [OF slug_property_flattened slug_property_flat, of "''url''" "JStr ''https://files/x.png''"]
    slug_property_flat canonical
  show ?thesis
    by simp
qed

text \<open>
  The \<open>catch\<close> of the mapping is never reached from \<open>flatten\<close>: on every property
  on which the body of the mapping throws, the filter has thrown before.
\<close>

lemma caught_mapping_fails_in_filter:
  "mapNotion_body key property = Inl e \<Longrightarrow> nonempty_property property = Inl TypeError"
  by (cases "nullish property")
     (auto simp: mapNotion_body_def nonempty_property_def get_def Let_def split: if_splits)

text \<open>
  Claim C1. The claim is that \<open>flatten\<close> never throws and that a failure on one malformed
  property only omits that property. The mapping of a property that is \<open>null\<close> is indeed
  caught and gives \<open>undefined\<close>, but the filter that runs before it reads
  \<open>property.select\<close> outside every \<open>try\<close>: on a post whose property \<open>Title\<close> is \<open>null\<close> the
  filter throws, \<open>flatten\<close> throws with it, and the module loses every post of the batch.
\<close>

theorem flatten_null_property_throws:
  "flatten (JObj [(''id'', JStr ''p2''), (''properties'', JObj [(''Title'', Null)])])
     = Inl TypeError
   \<and> nonempty_property Null = Inl TypeError
   \<and> mapNotionResponseToTextContent (''Title'', Null) = Undefined
   \<and> flatten null_title_post = Inl TypeError
   \<and> module_exports (example_world [first_post, null_title_post])
       = JObj [(''posts'', JArr [])]"
  by code_simp

subsection \<open>Rendering\<close>

lemma first_text_payload: "first_text (text_payload runs) = JStr (first_run runs)"
  by (cases runs) (simp_all add: first_text_def text_payload_def)

lemma first_text_no_text: "first_text (JObj []) = JStr []"
  by (simp add: first_text_def)

lemma truthy_text_payload [simp]: "truthy (text_payload runs)"
  by (simp add: text_payload_def)

lemma typed_block_fields:
  "k \<noteq> ''object'' \<Longrightarrow> k \<noteq> ''type'' \<Longrightarrow> opt_get (typed_block k payload) k = payload"
  "opt_get (typed_block k payload) ''type'' = JStr k"
  "truthy (typed_block k payload)"
  by (simp_all add: typed_block_def)

lemma convertBlock_encode_block:
  assumes "wf_block b"
  shows "convertBlock (encode_block b) = JStr (line_of b)"
proof (cases b)
  case (Heading_1 runs)
  then show ?thesis
    by (simp add: convertBlock_def convertBlock_body_def typed_block_fields
        first_text_payload line_of_def Let_def)
next
  case (Heading_2 runs)
  then show ?thesis
    by (simp add: convertBlock_def convertBlock_body_def typed_block_fields
        first_text_payload line_of_def Let_def)
next
  case (Heading_3 runs)
  then show ?thesis
    by (simp add: convertBlock_def convertBlock_body_def typed_block_fields
        first_text_payload line_of_def Let_def)
next
  case (Bulleted_list_item runs)
  then show ?thesis
    by (simp add: convertBlock_def convertBlock_body_def typed_block_fields
        first_text_payload line_of_def Let_def)
next
  case (Paragraph runs)
  then show ?thesis
    by (simp add: convertBlock_def convertBlock_body_def typed_block_fields
        first_text_payload line_of_def Let_def)
next
  case (Image url)
  then show ?thesis
    by (cases url)
       (simp_all add: convertBlock_def convertBlock_body_def typed_block_fields line_of_def
         Let_def)
next
  case (Other_block k runs)
  with assms show ?thesis
    by (cases runs)
       (simp_all add: convertBlock_def convertBlock_body_def typed_block_fields
         first_text_payload first_text_no_text line_of_def Let_def)
qed

lemma filterM_lines:
  "filterM (\<lambda>text. gt_zero w (opt_get text ''length'')) (map JStr ls)
   = Inr (map JStr (filter (\<lambda>l. l \<noteq> []) ls))"
  by (induction ls) simp_all

lemma ToString_elems_strings: "ToString_elems (map JStr ls) = Inr ls"
  by (induction ls) simp_all

lemma mappedBlockData_block_page:
  "mappedBlockData w (block_page blocks)
   = bnd (filterM (\<lambda>text. gt_zero w (opt_get text ''length'')) (map convertBlock blocks))
       (\<lambda>lines. bnd (ToString_elems lines) (\<lambda>ss. Inr (JStr (join [CHR 0x0A] ss))))"
  by (simp add: mappedBlockData_def block_page_def get_def)

lemma mappedBlockData_block_list:
  assumes "\<forall>b \<in> set bs. wf_block b"
  shows "mappedBlockData w (block_list bs) = Inr (JStr (spec_renderBlocks bs))"
proof -
  have "map convertBlock (map encode_block bs) = map JStr (map line_of bs)"
    using assms by (simp add: convertBlock_encode_block)
  then show ?thesis
    unfolding block_list_def mappedBlockData_block_page
    by (simp only: filterM_lines bnd_Inr ToString_elems_strings spec_renderBlocks_def)
qed

text \<open>
  Claim C4. On the blocks of the data model, each block gives the line of the
  specification: the prefix \<open>#\<close>, \<open>##\<close> or \<open>###\<close> for the headings and \<open>- \<close> for a
  bulleted item, none for a paragraph, an image or another kind; the text of the first
  run, or \<open>![post block related](url)\<close> for an image; prefix, space and text when both
  are non-empty, the text alone otherwise. The body is the non-empty lines joined by a
  newline, and \<open>renderBlocks\<close> adds it to the record as \<open>block\<close>. The blocks heading
  \<open>Intro\<close>, paragraph \<open>Body text\<close> and image \<open>http://x/y.png\<close> give the three lines of the
  specification.
\<close>

theorem renderBlocks_markup:
  assumes "\<forall>b \<in> set bs. wf_block b"
  shows "(\<forall>b \<in> set bs. convertBlock (encode_block b) = JStr (line_of b))
       \<and> mappedBlockData w (block_list bs) = Inr (JStr (spec_renderBlocks bs))
       \<and> (opt_get (JObj result) ''id'' = JStr path \<and> children w path = Inr (block_list bs)
            \<longrightarrow> renderBlocks w (JObj result)
                = Inr (JObj (AList.update ''block'' (JStr (spec_renderBlocks bs))
                         (spread [] (JObj result)))))"
  using assms mappedBlockData_block_list [OF assms, of w]
  by (simp add: convertBlock_encode_block renderBlocks_def get_def
      getPageBlockChildrenData_def del: opt_get.simps(1))

theorem renderBlocks_markup_witness:
  "mappedBlockData (example_world [])
     (block_list [Heading_1 [''Intro''], Paragraph [''Body text''],
        Image (Some ''http://x/y.png'')])
   = Inr (JStr ''# Intro\<newline>Body text\<newline>![post block related](http://x/y.png)'')
   \<and> renderBlocks (example_world []) (JObj [(''id'', JStr ''p1''), (''slug'', JStr ''my-post'')])
   = Inr (JObj [(''id'', JStr ''p1''), (''slug'', JStr ''my-post''),
       (''block'',
        JStr ''# Intro\<newline>Body text\<newline>![post block related](http://x/y.png)'')])"
proof -
  have body: "spec_renderBlocks [Heading_1 [''Intro''], Paragraph [''Body text''],
        Image (Some ''http://x/y.png'')]
      = ''# Intro\<newline>Body text\<newline>![post block related](http://x/y.png)''"
    by (simp add: spec_renderBlocks_def line_of_def)
  show ?thesis
    using renderBlocks_markup
      [of "[Heading_1 [''Intro''], Paragraph [''Body text''], Image (Some ''http://x/y.png'')]"
          "example_world []" "[(''id'', JStr ''p1''), (''slug'', JStr ''my-post'')]" "''p1''"]
    by (simp add: body example_world_def spread_def)
qed

lemma bnd_return [simp]: "bnd m Inr = m"
  by (cases m) simp_all












subsection \<open>The module\<close>







end
